theory Spec2Isabelle
  imports Main "HOL-Library.Word"
begin

section \<open>Data model (client.go, data_collection.go)\<close>

text \<open>
  Go values of type \<open>error\<close> are opaque to this package; the only errors it creates itself
  are \<open>errors.New(msg)\<close>. A Go result \<open>(x, err)\<close> is a pair whose second component is
  \<open>None\<close> for \<open>nil\<close>.
\<close>

datatype error = Error string

text \<open>
  \<open>time.Time\<close> is an instant, here in nanoseconds on an unbounded line (the range of
  Go's \<open>Time\<close> is far beyond any clock reading, so no wrap-around is modelled);
  \<open>time.Duration\<close> is a count of nanoseconds.
\<close>

type_synonym Time = int
type_synonym Duration = int

definition Second :: Duration where
  "Second = 1000000000"

definition Minute :: Duration where
  "Minute = 60 * Second"

definition Add :: "Time \<Rightarrow> Duration \<Rightarrow> Time" where
  "Add t d = t + d"

definition Before :: "Time \<Rightarrow> Time \<Rightarrow> bool" where
  "Before t u \<longleftrightarrow> t < u"

text \<open>Go's \<open>int\<close> and \<open>uint\<close> on a 64-bit target.\<close>

type_synonym go_int = "64 word"
type_synonym go_uint = "64 word"

record Config =
  CertFile :: string
  CertKeyFile :: string
  URL :: string
  AppID :: string
  Secret :: string
  ManufacturerName :: string
  ManufacturerID :: string
  EndUserID :: string
  Location :: string
  DeviceType :: string
  Model :: string

text \<open>
  The part of \<open>crypto/tls\<close> and \<open>net/http\<close> that \<open>NewClient\<close> fills in. A loaded
  certificate (chain and private key) is opaque.
\<close>

datatype Certificate = Certificate string

record TLSConfig =
  Certificates :: "Certificate list"
  InsecureSkipVerify :: bool
  NameToCertificate :: "string \<rightharpoonup> Certificate"

record HTTPTransport =
  TLSClientConfig :: TLSConfig

record HTTPClient =
  Transport :: HTTPTransport

text \<open>
  The struct \<open>Client\<close>. Its field \<open>c\<close> is called \<open>httpc\<close> here. The mutex \<open>reqLock\<close>
  is not a field of the model: the functions below are the sequential behaviour of one
  call, which takes the lock on entry and releases it on every return.
\<close>

record Client =
  httpc :: HTTPClient
  cfg :: Config
  token :: string
  tokenExpires :: Time

record GetDevicesStruct =
  GatewayID :: string
  NodeType :: string
  PageNo :: go_int
  PageSize :: go_int
  Status :: string
  StartTime :: string
  EndTime :: string
  Sort :: string

subsection \<open>Requests, responses and headers\<close>

text \<open>
  \<open>http.Header\<close> is a \<open>map[string][]string\<close> whose keys are in canonical form:
  \<open>Add\<close> and \<open>Values\<close> canonicalise the key they are given
  (\<open>textproto.CanonicalMIMEHeaderKey\<close>: a key made of header-field bytes only gets its
  first letter and every letter after a hyphen in upper case and the others in lower case;
  any other key is left as it is).
\<close>

type_synonym Header = "string \<rightharpoonup> string list"

definition isLower :: "char \<Rightarrow> bool" where
  "isLower ch \<longleftrightarrow> 97 \<le> (of_char ch :: nat) \<and> (of_char ch :: nat) \<le> 122"

definition isUpper :: "char \<Rightarrow> bool" where
  "isUpper ch \<longleftrightarrow> 65 \<le> (of_char ch :: nat) \<and> (of_char ch :: nat) \<le> 90"

definition isDigit :: "char \<Rightarrow> bool" where
  "isDigit ch \<longleftrightarrow> 48 \<le> (of_char ch :: nat) \<and> (of_char ch :: nat) \<le> 57"

definition validHeaderFieldByte :: "char \<Rightarrow> bool" where
  "validHeaderFieldByte ch \<longleftrightarrow>
     isLower ch \<or> isUpper ch \<or> isDigit ch \<or>
     (of_char ch :: nat) \<in> {33, 35, 36, 37, 38, 39, 42, 43, 45, 46, 94, 95, 96, 124, 126}"

definition toUpper :: "char \<Rightarrow> char" where
  "toUpper ch = char_of ((of_char ch :: nat) - 32)"

definition toLower :: "char \<Rightarrow> char" where
  "toLower ch = char_of ((of_char ch :: nat) + 32)"

fun canonicalBytes :: "bool \<Rightarrow> string \<Rightarrow> string" where
  "canonicalBytes upper [] = []"
| "canonicalBytes upper (ch # s) =
     (let ch' = (if upper \<and> isLower ch then toUpper ch
                 else if \<not> upper \<and> isUpper ch then toLower ch
                 else ch)
      in ch' # canonicalBytes (ch' = CHR ''-'') s)"

definition CanonicalMIMEHeaderKey :: "string \<Rightarrow> string" where
  "CanonicalMIMEHeaderKey s = (if list_all validHeaderFieldByte s then canonicalBytes True s else s)"

definition Header_Values :: "Header \<Rightarrow> string \<Rightarrow> string list" where
  "Header_Values h key = (case h (CanonicalMIMEHeaderKey key) of None \<Rightarrow> [] | Some vs \<Rightarrow> vs)"

definition Header_Add :: "Header \<Rightarrow> string \<Rightarrow> string \<Rightarrow> Header" where
  "Header_Add h key v = h(CanonicalMIMEHeaderKey key \<mapsto> Header_Values h key @ [v])"

text \<open>
  A request: the method, the URL string that \<open>http.NewRequest\<close> was given (the library
  parses it and escapes it again when it writes the request), the header and the body
  (\<open>None\<close> for a \<open>nil\<close> reader). A response: status code, status line and body.
\<close>

record Request =
  Method :: string
  RawURL :: string
  Hdr :: Header
  ReqBody :: "string option"

record Response =
  StatusCode :: nat
  StatusLine :: string
  Body :: string

definition AddHeader :: "Request \<Rightarrow> string \<Rightarrow> string \<Rightarrow> Request" where
  "AddHeader req key v = req\<lparr>Hdr := Header_Add (Hdr req) key v\<rparr>"

text \<open>
  What a call does to the world outside the client: the calls of \<open>c.Login()\<close> and of
  \<open>c.c.Do(req)\<close>, in order.
\<close>

datatype event = LoginCall | DoCall Request

type_synonym LoginFn = "Client \<Rightarrow> error option \<times> Client"
type_synonym DoFn = "Request \<Rightarrow> Response option \<times> error option"

text \<open>
  \<open>http.NewRequest\<close> of the standard library: it refuses an invalid method or a URL
  that does not parse (\<open>reject\<close> stands for these two checks), and otherwise returns a
  request with the method (\<open>GET\<close> for the empty string), the URL, an empty header and
  the body.
\<close>

definition NewRequest ::
  "(string \<Rightarrow> string \<Rightarrow> error option) \<Rightarrow> string \<Rightarrow> string \<Rightarrow> string option \<Rightarrow> error + Request" where
  "NewRequest reject method url body =
     (let method' = (if method = [] then ''GET'' else method)
      in case reject method' url of
           Some err \<Rightarrow> Inl err
         | None \<Rightarrow> Inr \<lparr>Method = method', RawURL = url, Hdr = Map.empty, ReqBody = body\<rparr>)"

section \<open>Construction of the client (client.go)\<close>

text \<open>
  \<open>tls.Config.BuildNameToCertificate\<close> of the standard library fills the field
  \<open>NameToCertificate\<close> from the certificates; \<open>names\<close> gives the names a certificate is
  registered under (none when its leaf does not parse).
\<close>

definition BuildNameToCertificate :: "(Certificate \<Rightarrow> string list) \<Rightarrow> TLSConfig \<Rightarrow> TLSConfig" where
  "BuildNameToCertificate names tc =
     tc\<lparr>NameToCertificate :=
          fold (\<lambda>cert m. fold (\<lambda>n m'. m'(n \<mapsto> cert)) (names cert) m) (Certificates tc) Map.empty\<rparr>"

text \<open>
  \<open>NewClient\<close>. \<open>LoadX509KeyPair\<close> is \<open>tls.LoadX509KeyPair\<close>, which reads and parses the
  two files and returns a non-nil error when one of them cannot be read or is malformed.
  The fields \<open>token\<close> and \<open>tokenExpires\<close> of the new client have their zero values.
\<close>

definition NewClient ::
  "(string \<Rightarrow> string \<Rightarrow> Certificate \<times> error option) \<Rightarrow> (Certificate \<Rightarrow> string list) \<Rightarrow> Config \<Rightarrow>
     Client option \<times> error option" where
  "NewClient LoadX509KeyPair names conf =
     (let (cert, err) = LoadX509KeyPair (CertFile conf) (CertKeyFile conf)
      in case err of
           Some e \<Rightarrow> (None, Some e)
         | None \<Rightarrow>
             (let tlsConfig = \<lparr>Certificates = [cert], InsecureSkipVerify = True,
                                NameToCertificate = Map.empty\<rparr>;
                  tlsConfig' = BuildNameToCertificate names tlsConfig
              in (Some \<lparr>httpc = \<lparr>Transport = \<lparr>TLSClientConfig = tlsConfig'\<rparr>\<rparr>,
                        cfg = conf, token = [], tokenExpires = 0\<rparr>,
                  None)))"

section \<open>The authenticated dispatcher (client.go)\<close>

text \<open>
  \<open>doRequest\<close>. \<open>loginFn\<close> is the method \<open>Login\<close> it calls (it may change the client and returns an
  error or \<open>nil\<close>), \<open>Do\<close> is \<open>c.c.Do\<close>, \<open>now\<close> is the reading of \<open>time.Now()\<close>.
  The result is what the function returns, the client afterwards and the calls it made.
\<close>

definition doRequest ::
  "LoginFn \<Rightarrow> DoFn \<Rightarrow> Time \<Rightarrow> Client \<Rightarrow> Request \<Rightarrow>
     (Response option \<times> error option) \<times> Client \<times> event list" where
  "doRequest loginFn Do now cl req =
     (let (err, cl1, evs) =
            (if Before (tokenExpires cl) (Add now (Minute * 5))
             then (let (e, cl') = loginFn cl in (e, cl', [LoginCall]))
             else (None, cl, []))
      in case err of
           Some e \<Rightarrow> ((None, Some e), cl1, evs)
         | None \<Rightarrow>
             (let req1 = AddHeader req ''app_key'' (AppID (cfg cl1));
                  req2 = AddHeader req1 ''Authorization'' (token cl1);
                  req3 = AddHeader req2 ''Content-Type'' ''application/json''
              in (Do req3, cl1, evs @ [DoCall req3])))"

text \<open>\<open>request\<close>.\<close>

definition request ::
  "(string \<Rightarrow> string \<Rightarrow> error option) \<Rightarrow> LoginFn \<Rightarrow> DoFn \<Rightarrow> Time \<Rightarrow> Client \<Rightarrow>
     string \<Rightarrow> string \<Rightarrow> string option \<Rightarrow>
     (Response option \<times> error option) \<times> Client \<times> event list" where
  "request reject loginFn Do now cl method urlStr body =
     (case NewRequest reject method (URL (cfg cl) @ urlStr) body of
        Inl err \<Rightarrow> ((None, Some err), cl, [])
      | Inr r \<Rightarrow> doRequest loginFn Do now cl r)"

section \<open>The session manager\<close>

text \<open>
  Modelled from the spec: the method \<open>Login\<close> of \<open>Client\<close>, which \<open>doRequest\<close> calls and
  which is not among the source files. The specification says of it: perform a Login
  exchange with the authentication endpoint; on success, atomically replace the token and
  its expiry with the values returned by the server; on failure, leave the session state
  unchanged and propagate the error. The outcome of the exchange is \<open>Inl\<close> of the error
  (endpoint unreachable, non-success status, undecodable body) or \<open>Inr\<close> of the token and
  the expiry that the server granted.
\<close>

type_synonym LoginReply = "error + string \<times> Time"

definition Login :: "LoginReply \<Rightarrow> Client \<Rightarrow> error option \<times> Client" where
  "Login reply cl =
     (case reply of
        Inl err \<Rightarrow> (Some err, cl)
      | Inr (tok, expires) \<Rightarrow> (None, cl\<lparr>token := tok, tokenExpires := expires\<rparr>))"

text \<open>
  A sequence of dispatch calls on one client, each with the outcome of its login exchange
  (used only when the call logs in), its transport, its clock reading and its request.
  The log holds, for every call, the client it started from, the call and what
  \<open>doRequest\<close> gave.
\<close>

type_synonym Call = "LoginReply \<times> DoFn \<times> Time \<times> Request"

type_synonym Outcome = "(Response option \<times> error option) \<times> Client \<times> event list"

fun dispatchAll :: "Call list \<Rightarrow> Client \<Rightarrow> (Client \<times> Call \<times> Outcome) list" where
  "dispatchAll [] cl = []"
| "dispatchAll ((reply, Do, now, req) # calls) cl =
     (let out = doRequest (Login reply) Do now cl req
      in (cl, (reply, Do, now, req), out) # dispatchAll calls (fst (snd out)))"

section \<open>Operation handlers\<close>

subsection \<open>The query string of GetDevices (client.go)\<close>

text \<open>\<open>strconv.Itoa\<close>: the decimal digits of a signed integer.\<close>

function digits :: "nat \<Rightarrow> string" where
  "digits n = (if n < 10 then [char_of (48 + n)] else digits (n div 10) @ [char_of (48 + n mod 10)])"
  by pat_completeness auto
termination
  by (relation "measure id") auto

declare digits.simps [simp del]

definition Itoa :: "go_int \<Rightarrow> string" where
  "Itoa i = (if sint i < 0 then CHR ''-'' # digits (nat (- sint i)) else digits (nat (sint i)))"

definition getQueryStringForDeviceGet :: "GetDevicesStruct \<Rightarrow> string" where
  "getQueryStringForDeviceGet dev =
     (let s0 = ''/iocm/app/dm/v1.1.0/devices?'';
          s1 = (if GatewayID dev \<noteq> [] then s0 @ ''gatewayId='' @ GatewayID dev @ ''&'' else s0);
          s2 = (if NodeType dev \<noteq> [] then s1 @ ''nodeType='' @ NodeType dev @ ''&'' else s1);
          s3 = s2 @ ''pageNo='' @ Itoa (PageNo dev) @ ''&'';
          s4 = (if PageSize dev \<noteq> 0 then s3 @ ''pageSize='' @ Itoa (PageSize dev) @ ''&'' else s3);
          s5 = (if StartTime dev \<noteq> [] then s4 @ ''startTime='' @ StartTime dev @ ''&'' else s4);
          s6 = (if EndTime dev \<noteq> [] then s5 @ ''endTime='' @ EndTime dev @ ''&'' else s5);
          s7 = (if Status dev \<noteq> [] then s6 @ ''status='' @ Status dev @ ''&'' else s6);
          s8 = (if Sort dev \<noteq> [] then s7 @ ''sort='' @ Sort dev else s7)
      in s8)"

subsection \<open>RegisterDevice (data_collection.go)\<close>

record RegistrationReply =
  VerifyCode :: string
  DeviceID :: string
  Timeout :: go_uint
  Psk :: string

record regDevice =
  VerifyCode :: string
  NodeID :: string
  Timeout :: go_uint
  EndUserID :: string

text \<open>
  \<open>RegisterDevice\<close>. \<open>Marshal\<close> is \<open>json.Marshal\<close> on the body, and \<open>decoded\<close> is what
  \<open>json.NewDecoder(resp.Body).Decode(&d)\<close> gives in this call: the error, or the reply it
  has filled in. The first component of the result is \<open>None\<close> when the function does not
  return (it reads \<open>resp.StatusCode\<close> of a \<open>nil\<close> response).
\<close>

definition RegisterDevice ::
  "(regDevice \<Rightarrow> error + string) \<Rightarrow> error + RegistrationReply \<Rightarrow>
     (string \<Rightarrow> string \<Rightarrow> error option) \<Rightarrow> LoginFn \<Rightarrow> DoFn \<Rightarrow> Time \<Rightarrow> Client \<Rightarrow>
     string \<Rightarrow> go_uint list \<Rightarrow>
     (RegistrationReply option \<times> error option) option \<times> Client \<times> event list" where
  "RegisterDevice Marshal decoded reject loginFn Do now cl imei timeoutV =
     (let timeout = (if length timeoutV > 0 then timeoutV ! 0 else 0);
          b = \<lparr>regDevice.VerifyCode = imei, NodeID = imei, regDevice.Timeout = timeout,
               regDevice.EndUserID = Config.EndUserID (cfg cl)\<rparr>
      in case Marshal b of
           Inl err \<Rightarrow> (Some (None, Some err), cl, [])
         | Inr body \<Rightarrow>
             (let ((resp, err), cl', evs) =
                    request reject loginFn Do now cl ''POST''
                      (''/iocm/app/reg/v1.2.0/devices?appId='' @ AppID (cfg cl)) (Some body)
              in case err of
                   Some e \<Rightarrow> (Some (None, Some e), cl', evs)
                 | None \<Rightarrow>
                     (case resp of
                        None \<Rightarrow> (None, cl', evs)
                      | Some r \<Rightarrow>
                          if StatusCode r \<noteq> 200
                          then (Some (None, Some (Error (''invalid response code: '' @ StatusLine r))),
                                cl', evs)
                          else (case decoded of
                                  Inl e \<Rightarrow> (Some (None, Some e), cl', evs)
                                | Inr d \<Rightarrow> (Some (Some d, None), cl', evs)))))"

section \<open>Sample values\<close>

text \<open>
  A configuration, the client that \<open>NewClient\<close> builds from it, a request, a transport
  that answers 200 and a login that is refused.
\<close>

definition sampleConfig :: Config where
  "sampleConfig =
     \<lparr>CertFile = ''client.crt'', CertKeyFile = ''client.key'', URL = ''https://iot.example:8743'',
      AppID = ''app1'', Secret = ''s3cret'', ManufacturerName = ''Acme'', ManufacturerID = ''acme'',
      EndUserID = ''user1'', Location = ''lab'', DeviceType = ''meter'', Model = ''m1''\<rparr>"

definition sampleLoad :: "string \<Rightarrow> string \<Rightarrow> Certificate \<times> error option" where
  "sampleLoad certFile keyFile = (Certificate (certFile @ keyFile), None)"

definition failingLoad :: "string \<Rightarrow> string \<Rightarrow> Certificate \<times> error option" where
  "failingLoad certFile keyFile = (Certificate [], Some (Error ''no such file''))"

definition noNames :: "Certificate \<Rightarrow> string list" where
  "noNames cert = []"

definition freshClient :: Client where
  "freshClient =
     \<lparr>httpc = \<lparr>Transport = \<lparr>TLSClientConfig =
         \<lparr>Certificates = [Certificate ''client.crtclient.key''], InsecureSkipVerify = True,
          NameToCertificate = Map.empty\<rparr>\<rparr>\<rparr>,
      cfg = sampleConfig, token = [], tokenExpires = 0\<rparr>"

definition sampleRequest :: Request where
  "sampleRequest =
     \<lparr>Method = ''GET'', RawURL = ''https://iot.example:8743/iocm/app/dm/v1.1.0/devices/d1'',
      Hdr = Map.empty, ReqBody = None\<rparr>"

definition okDo :: DoFn where
  "okDo req = (Some \<lparr>StatusCode = 200, StatusLine = ''200 OK'', Body = ''{}''\<rparr>, None)"

definition refusedLogin :: LoginFn where
  "refusedLogin cl = (Some (Error ''invalid response code: 401 Unauthorized''), cl)"

definition acceptAll :: "string \<Rightarrow> string \<Rightarrow> error option" where
  "acceptAll method url = None"

definition sampleNow :: Time where
  "sampleNow = 1000 * Second"

text \<open>The client with a session that lasts another hour, and the request it sends.\<close>

definition sessionClient :: Client where
  "sessionClient = freshClient\<lparr>token := ''T1'', tokenExpires := Add sampleNow (3600 * Second)\<rparr>"

definition sentRequest :: Request where
  "sentRequest =
     sampleRequest\<lparr>Hdr := [''App_key'' \<mapsto> [''app1''], ''Authorization'' \<mapsto> [''T1''],
                           ''Content-Type'' \<mapsto> [''application/json'']]\<rparr>"

text \<open>
  Two calls in a row on the new client: the first logs in and is granted the token
  \<open>T1\<close> for an hour, the second comes ten seconds later.
\<close>

definition scenarioA :: "Call list" where
  "scenarioA =
     [(Inr (''T1'', Add sampleNow (3600 * Second)), okDo, sampleNow, sampleRequest),
      (Inl (Error ''unreachable''), okDo, Add sampleNow (10 * Second), sampleRequest)]"

text \<open>The zero value of \<open>GetDevicesStruct\<close>.\<close>

definition zeroDevices :: GetDevicesStruct where
  "zeroDevices =
     \<lparr>GatewayID = [], NodeType = [], PageNo = 0, PageSize = 0, Status = [],
      StartTime = [], EndTime = [], Sort = []\<rparr>"

text \<open>
  \<open>json.Marshal\<close> on a \<open>regDevice\<close>, for the sample runs: an object with the four fields
  in the order of the struct, the strings quoted and escaped as the encoder of the
  standard library does (quote and backslash with a backslash, control characters and
  \<open><\<close>, \<open>>\<close>, \<open>&\<close> as \<open>\u00XX\<close>, a byte that is not part of well-formed UTF-8 as
  \<open>\ufffd\<close>, U+2028 and U+2029 as \<open>\u2028\<close> and \<open>\u2029\<close>), the timeout in unsigned
  decimal. It never fails.
\<close>

definition hexDigit :: "nat \<Rightarrow> char" where
  "hexDigit n = (if n < 10 then char_of (48 + n) else char_of (87 + n))"

definition escapeASCII :: "char \<Rightarrow> string" where
  "escapeASCII ch =
     (let n = (of_char ch :: nat)
      in if n = 34 \<or> n = 92 then [CHR 0x5C, ch]
         else if n = 8 then [CHR 0x5C, CHR ''b'']
         else if n = 12 then [CHR 0x5C, CHR ''f'']
         else if n = 10 then [CHR 0x5C, CHR ''n'']
         else if n = 13 then [CHR 0x5C, CHR ''r'']
         else if n = 9 then [CHR 0x5C, CHR ''t'']
         else if n < 32 \<or> n = 60 \<or> n = 62 \<or> n = 38
           then [CHR 0x5C, CHR ''u'', CHR ''0'', CHR ''0'', hexDigit (n div 16), hexDigit (n mod 16)]
         else [ch])"

definition isCont :: "nat \<Rightarrow> bool" where
  "isCont b \<longleftrightarrow> 128 \<le> b \<and> b \<le> 191"

text \<open>The length of the well-formed UTF-8 sequence at the head of the bytes, 0 if none.\<close>

definition runeWidth :: "nat list \<Rightarrow> nat" where
  "runeWidth bs =
     (case bs of
        [] \<Rightarrow> 0
      | b0 # rest \<Rightarrow>
          if 194 \<le> b0 \<and> b0 \<le> 223 then
            (case rest of b1 # _ \<Rightarrow> if isCont b1 then 2 else 0 | _ \<Rightarrow> 0)
          else if 224 \<le> b0 \<and> b0 \<le> 239 then
            (case rest of
               b1 # b2 # _ \<Rightarrow>
                 if (if b0 = 224 then 160 else 128) \<le> b1 \<and>
                    b1 \<le> (if b0 = 237 then 159 else 191) \<and> isCont b2
                 then 3 else 0
             | _ \<Rightarrow> 0)
          else if 240 \<le> b0 \<and> b0 \<le> 244 then
            (case rest of
               b1 # b2 # b3 # _ \<Rightarrow>
                 if (if b0 = 240 then 144 else 128) \<le> b1 \<and>
                    b1 \<le> (if b0 = 244 then 143 else 191) \<and> isCont b2 \<and> isCont b3
                 then 4 else 0
             | _ \<Rightarrow> 0)
          else 0)"

function jsonEscape :: "string \<Rightarrow> string" where
  "jsonEscape [] = []"
| "jsonEscape (ch # s) =
     (if (of_char ch :: nat) < 128 then escapeASCII ch @ jsonEscape s
      else
        (let w = runeWidth (map of_char (ch # s))
         in if w = 0
              then [CHR 0x5C, CHR ''u'', CHR ''f'', CHR ''f'', CHR ''f'', CHR ''d''] @ jsonEscape s
            else if map of_char (take 3 (ch # s)) = [226, 128, 168 :: nat]
              then [CHR 0x5C, CHR ''u'', CHR ''2'', CHR ''0'', CHR ''2'', CHR ''8''] @
                   jsonEscape (drop 2 s)
            else if map of_char (take 3 (ch # s)) = [226, 128, 169 :: nat]
              then [CHR 0x5C, CHR ''u'', CHR ''2'', CHR ''0'', CHR ''2'', CHR ''9''] @
                   jsonEscape (drop 2 s)
            else take w (ch # s) @ jsonEscape (drop (w - 1) s)))"
  by pat_completeness auto
termination
  by (relation "measure length") auto

declare jsonEscape.simps [simp del]

definition jsonString :: "string \<Rightarrow> string" where
  "jsonString s = CHR 0x22 # jsonEscape s @ [CHR 0x22]"

definition jsonMarshal :: "regDevice \<Rightarrow> error + string" where
  "jsonMarshal b =
     Inr (''{'' @ jsonString ''verifyCode'' @ '':'' @ jsonString (regDevice.VerifyCode b) @
          '','' @ jsonString ''nodeId'' @ '':'' @ jsonString (NodeID b) @
          '','' @ jsonString ''timeout'' @ '':'' @ digits (unat (regDevice.Timeout b)) @
          '','' @ jsonString ''endUserId'' @ '':'' @ jsonString (regDevice.EndUserID b) @
          ''}'')"

text \<open>
  The registration of the IMEI \<open>867\<close> by the client with a session: the body with the
  timeout written as \<open>t\<close>, and the request that carries it. The sample transport answers
  200 with the body \<open>{}\<close>, which decodes to the reply with all fields at their zero values.
\<close>

definition quoted :: "string \<Rightarrow> string" where
  "quoted s = CHR 0x22 # s @ [CHR 0x22]"

definition registerBody :: "string \<Rightarrow> string" where
  "registerBody t =
     ''{'' @ quoted ''verifyCode'' @ '':'' @ quoted ''867'' @
     '','' @ quoted ''nodeId'' @ '':'' @ quoted ''867'' @
     '','' @ quoted ''timeout'' @ '':'' @ t @
     '','' @ quoted ''endUserId'' @ '':'' @ quoted ''user1'' @ ''}''"

definition registerRequest :: "string \<Rightarrow> Request" where
  "registerRequest t =
     \<lparr>Method = ''POST'',
      RawURL = ''https://iot.example:8743/iocm/app/reg/v1.2.0/devices?appId=app1'',
      Hdr = [''App_key'' \<mapsto> [''app1''], ''Authorization'' \<mapsto> [''T1''],
             ''Content-Type'' \<mapsto> [''application/json'']],
      ReqBody = Some (registerBody t)\<rparr>"

definition emptyReply :: RegistrationReply where
  "emptyReply =
     \<lparr>RegistrationReply.VerifyCode = [], DeviceID = [], RegistrationReply.Timeout = 0, Psk = []\<rparr>"

section \<open>Properties of the dispatcher\<close>

subsection \<open>The three ways through \<open>doRequest\<close>\<close>

lemma doRequest_fresh:
  "\<not> Before (tokenExpires cl) (Add now (Minute * 5)) \<Longrightarrow>
   doRequest loginFn Do now cl req =
     (let r = AddHeader (AddHeader (AddHeader req ''app_key'' (AppID (cfg cl)))
                ''Authorization'' (token cl)) ''Content-Type'' ''application/json''
      in (Do r, cl, [DoCall r]))"
  by (simp add: doRequest_def Let_def)

lemma doRequest_login_ok:
  "Before (tokenExpires cl) (Add now (Minute * 5)) \<Longrightarrow> loginFn cl = (None, cl') \<Longrightarrow>
   doRequest loginFn Do now cl req =
     (let r = AddHeader (AddHeader (AddHeader req ''app_key'' (AppID (cfg cl')))
                ''Authorization'' (token cl')) ''Content-Type'' ''application/json''
      in (Do r, cl', [LoginCall, DoCall r]))"
  by (simp add: doRequest_def Let_def)

lemma doRequest_login_failed:
  "Before (tokenExpires cl) (Add now (Minute * 5)) \<Longrightarrow> loginFn cl = (Some e, cl') \<Longrightarrow>
   doRequest loginFn Do now cl req = ((None, Some e), cl', [LoginCall])"
  by (simp add: doRequest_def Let_def)

lemma doRequest_cases:
  obtains
    (fresh) "\<not> Before (tokenExpires cl) (Add now (Minute * 5))"
  | (login_ok) cl' where
      "Before (tokenExpires cl) (Add now (Minute * 5))" "loginFn cl = (None, cl')"
  | (login_failed) e cl' where
      "Before (tokenExpires cl) (Add now (Minute * 5))" "loginFn cl = (Some e, cl')"
  by (cases "loginFn cl"; cases "fst (loginFn cl)") auto

lemma freshClient_stale: "Before (tokenExpires freshClient) (Add sampleNow (Minute * 5))"
  by (simp add: freshClient_def Before_def Add_def Minute_def Second_def sampleNow_def)

lemma sessionClient_fresh: "\<not> Before (tokenExpires sessionClient) (Add sampleNow (Minute * 5))"
  by (simp add: sessionClient_def Before_def Add_def Minute_def Second_def sampleNow_def)

subsection \<open>A failed login aborts the call\<close>

text \<open>
  C3. When the session check of \<open>doRequest\<close> calls \<open>Login\<close> and \<open>Login\<close> returns an error,
  \<open>doRequest\<close> returns \<open>nil\<close> and that error, and \<open>c.c.Do\<close> is not called: no \<open>DoCall\<close> is
  among the calls it made. This holds for whatever \<open>Login\<close> does to the client.
\<close>

theorem doRequest_login_error_aborts:
  assumes "Before (tokenExpires cl) (Add now (Minute * 5))"
    and "loginFn cl = (Some e, cl')"
  shows "fst (doRequest loginFn Do now cl req) = (None, Some e) \<and>
         (\<forall>r. DoCall r \<notin> set (snd (snd (doRequest loginFn Do now cl req))))"
  using assms by (simp add: doRequest_login_failed)

theorem doRequest_login_error_aborts_witness:
  "Before (tokenExpires freshClient) (Add sampleNow (Minute * 5)) \<and>
   refusedLogin freshClient = (Some (Error ''invalid response code: 401 Unauthorized''), freshClient) \<and>
   fst (doRequest refusedLogin okDo sampleNow freshClient sampleRequest) =
     (None, Some (Error ''invalid response code: 401 Unauthorized'')) \<and>
   (\<forall>r. DoCall r \<notin> set (snd (snd (doRequest refusedLogin okDo sampleNow freshClient sampleRequest))))"
proof -
  have refused: "refusedLogin freshClient =
      (Some (Error ''invalid response code: 401 Unauthorized''), freshClient)"
    by (simp add: refusedLogin_def)
  from doRequest_login_error_aborts
         [where loginFn = refusedLogin and Do = okDo and req = sampleRequest,
          OF freshClient_stale refused]
       freshClient_stale refused
  show ?thesis by simp
qed

subsection \<open>The request that is sent\<close>

lemma canonical_app_key: "CanonicalMIMEHeaderKey ''app_key'' = ''App_key''"
  by code_simp

lemma canonical_Authorization: "CanonicalMIMEHeaderKey ''Authorization'' = ''Authorization''"
  by code_simp

lemma canonical_Content_Type: "CanonicalMIMEHeaderKey ''Content-Type'' = ''Content-Type''"
  by code_simp

lemmas canonical_keys = canonical_app_key canonical_Authorization canonical_Content_Type

lemma sent_headers:
  fixes cl :: Client and req :: Request
  defines "r \<equiv> AddHeader (AddHeader (AddHeader req ''app_key'' (AppID (cfg cl)))
                ''Authorization'' (token cl)) ''Content-Type'' ''application/json''"
  shows "Header_Values (Hdr r) ''app_key'' = Header_Values (Hdr req) ''app_key'' @ [AppID (cfg cl)]"
    and "Header_Values (Hdr r) ''Authorization'' =
           Header_Values (Hdr req) ''Authorization'' @ [token cl]"
    and "Header_Values (Hdr r) ''Content-Type'' =
           Header_Values (Hdr req) ''Content-Type'' @ [''application/json'']"
    and "\<forall>k. k \<notin> {''App_key'', ''Authorization'', ''Content-Type''} \<longrightarrow> Hdr r k = Hdr req k"
    and "Hdr req = Map.empty \<longrightarrow>
           Hdr r = [''App_key'' \<mapsto> [AppID (cfg cl)], ''Authorization'' \<mapsto> [token cl],
                    ''Content-Type'' \<mapsto> [''application/json'']]"
    and "Method r = Method req" and "RawURL r = RawURL req" and "ReqBody r = ReqBody req"
  unfolding r_def
  by (simp_all add: Header_Values_def Header_Add_def AddHeader_def canonical_keys)

text \<open>
  Whenever \<open>doRequest\<close> calls \<open>c.c.Do\<close>, it does so once, on the request with the three
  headers added, and returns what \<open>Do\<close> returned.
\<close>

lemma doRequest_sent:
  assumes "doRequest loginFn Do now cl req = (res, cl', evs)" and "DoCall r \<in> set evs"
  shows "r = AddHeader (AddHeader (AddHeader req ''app_key'' (AppID (cfg cl')))
                ''Authorization'' (token cl')) ''Content-Type'' ''application/json''"
    and "res = Do r"
    and "filter (\<lambda>ev. ev \<noteq> LoginCall) evs = [DoCall r]"
proof -
  have "r = AddHeader (AddHeader (AddHeader req ''app_key'' (AppID (cfg cl')))
                ''Authorization'' (token cl')) ''Content-Type'' ''application/json''
         \<and> res = Do r \<and> filter (\<lambda>ev. ev \<noteq> LoginCall) evs = [DoCall r]"
  proof (cases rule: doRequest_cases [where cl = cl and now = now and loginFn = loginFn])
    case fresh
    with assms show ?thesis by (auto simp: doRequest_fresh Let_def)
  next
    case (login_ok cl1)
    with assms show ?thesis by (auto simp: doRequest_login_ok Let_def)
  next
    case (login_failed e cl1)
    with assms show ?thesis by (auto simp: doRequest_login_failed)
  qed
  then show "r = AddHeader (AddHeader (AddHeader req ''app_key'' (AppID (cfg cl')))
                ''Authorization'' (token cl')) ''Content-Type'' ''application/json''"
    and "res = Do r"
    and "filter (\<lambda>ev. ev \<noteq> LoginCall) evs = [DoCall r]"
    by simp_all
qed

lemma request_is_doRequest:
  assumes "request reject loginFn Do now cl meth urlStr body = (res, cl', evs)"
    and "DoCall r \<in> set evs"
  shows "\<exists>req. NewRequest reject meth (URL (cfg cl) @ urlStr) body = Inr req \<and>
               doRequest loginFn Do now cl req = (res, cl', evs)"
  using assms by (auto simp: request_def split: sum.splits)

lemma sampleRequest_Hdr: "Hdr sampleRequest = Map.empty"
  by (simp add: sampleRequest_def)

lemma sessionClient_fields: "AppID (cfg sessionClient) = ''app1''" "token sessionClient = ''T1''"
  by (simp_all add: sessionClient_def freshClient_def sampleConfig_def)

lemma doRequest_sessionClient:
  "doRequest refusedLogin okDo sampleNow sessionClient sampleRequest =
     (okDo sentRequest, sessionClient, [DoCall sentRequest])"
  by (simp add: doRequest_fresh [OF sessionClient_fresh] Let_def)
     (simp add: sessionClient_def freshClient_def sampleConfig_def sentRequest_def
        sampleRequest_def AddHeader_def Header_Add_def Header_Values_def canonical_keys okDo_def)



subsection \<open>The result that is returned\<close>

lemma request_sessionClient:
  "request acceptAll refusedLogin okDo sampleNow sessionClient
       ''GET'' ''/iocm/app/dm/v1.1.0/devices/d1'' None =
     (okDo sentRequest, sessionClient, [DoCall sentRequest])"
proof -
  have "NewRequest acceptAll ''GET''
          (URL (cfg sessionClient) @ ''/iocm/app/dm/v1.1.0/devices/d1'') None = Inr sampleRequest"
    by (simp add: NewRequest_def acceptAll_def sampleRequest_def sessionClient_def
          freshClient_def sampleConfig_def)
  then show ?thesis
    by (simp add: request_def doRequest_sessionClient)
qed

lemma request_rejected:
  "reject (if meth = [] then ''GET'' else meth) (URL (cfg cl) @ urlStr) = Some err \<Longrightarrow>
   request reject loginFn Do now cl meth urlStr body = ((None, Some err), cl, [])"
  by (simp add: request_def NewRequest_def)

lemma request_accepted:
  "reject (if meth = [] then ''GET'' else meth) (URL (cfg cl) @ urlStr) = None \<Longrightarrow>
   request reject loginFn Do now cl meth urlStr body =
     doRequest loginFn Do now cl
       \<lparr>Method = (if meth = [] then ''GET'' else meth), RawURL = URL (cfg cl) @ urlStr,
        Hdr = Map.empty, ReqBody = body\<rparr>"
  by (simp add: request_def NewRequest_def)

text \<open>
  Every call of \<open>doRequest\<close> ends in one of two ways: the login it needed failed, and it
  returns that error after the one call of \<open>Login\<close>; or it calls \<open>c.c.Do\<close> once, on the
  request with its method and body unchanged, and returns what \<open>Do\<close> returned.
\<close>

lemma doRequest_outcome:
  assumes "doRequest loginFn Do now cl req = (res, cl', evs)"
  shows "(Before (tokenExpires cl) (Add now (Minute * 5)) \<and>
            (\<exists>e. fst (loginFn cl) = Some e \<and> res = (None, Some e)) \<and> evs = [LoginCall]) \<or>
         ((Before (tokenExpires cl) (Add now (Minute * 5)) \<longrightarrow> fst (loginFn cl) = None) \<and>
            (\<exists>r. res = Do r \<and> filter (\<lambda>ev. ev \<noteq> LoginCall) evs = [DoCall r] \<and>
                 Method r = Method req \<and> ReqBody r = ReqBody req))"
proof (cases rule: doRequest_cases [where cl = cl and now = now and loginFn = loginFn])
  case fresh
  with assms show ?thesis
    by (auto simp: doRequest_fresh Let_def sent_headers(6,8))
next
  case (login_ok cl1)
  with assms show ?thesis
    by (auto simp: doRequest_login_ok Let_def sent_headers(6,8))
next
  case (login_failed e cl1)
  with assms show ?thesis
    by (auto simp: doRequest_login_failed)
qed

text \<open>
  C5. Every call of \<open>doRequest\<close> either fails at the login it needed, or calls \<open>c.c.Do\<close>
  exactly once and returns to its caller the pair of response and error that \<open>Do\<close>
  returned, as it is, whatever the status code, the body or the error in it (no
  interpretation, no decoding, no retry). The same holds of \<open>request\<close>, which besides
  returns the error of \<open>http.NewRequest\<close> when that refuses the request; the request it
  sends has the method and the body it was given.
\<close>

theorem dispatch_returns_raw_result:
  "(doRequest loginFn Do now cl req = (res, cl', evs) \<longrightarrow>
      (Before (tokenExpires cl) (Add now (Minute * 5)) \<and>
         (\<exists>e. fst (loginFn cl) = Some e \<and> res = (None, Some e)) \<and> evs = [LoginCall]) \<or>
      ((Before (tokenExpires cl) (Add now (Minute * 5)) \<longrightarrow> fst (loginFn cl) = None) \<and>
         (\<exists>r. res = Do r \<and> filter (\<lambda>ev. ev \<noteq> LoginCall) evs = [DoCall r] \<and>
              Method r = Method req \<and> ReqBody r = ReqBody req))) \<and>
   (request reject loginFn Do now cl meth urlStr body = (resq, clq, evsq) \<longrightarrow>
      (\<exists>err. reject (if meth = [] then ''GET'' else meth) (URL (cfg cl) @ urlStr) = Some err \<and>
         resq = (None, Some err) \<and> evsq = []) \<or>
      (reject (if meth = [] then ''GET'' else meth) (URL (cfg cl) @ urlStr) = None \<and>
       Before (tokenExpires cl) (Add now (Minute * 5)) \<and>
         (\<exists>e. fst (loginFn cl) = Some e \<and> resq = (None, Some e)) \<and> evsq = [LoginCall]) \<or>
      (reject (if meth = [] then ''GET'' else meth) (URL (cfg cl) @ urlStr) = None \<and>
       (Before (tokenExpires cl) (Add now (Minute * 5)) \<longrightarrow> fst (loginFn cl) = None) \<and>
         (\<exists>r. resq = Do r \<and> filter (\<lambda>ev. ev \<noteq> LoginCall) evsq = [DoCall r] \<and>
              Method r = (if meth = [] then ''GET'' else meth) \<and> ReqBody r = body)))"
proof (intro conjI impI)
  assume "doRequest loginFn Do now cl req = (res, cl', evs)"
  then show "(Before (tokenExpires cl) (Add now (Minute * 5)) \<and>
         (\<exists>e. fst (loginFn cl) = Some e \<and> res = (None, Some e)) \<and> evs = [LoginCall]) \<or>
      ((Before (tokenExpires cl) (Add now (Minute * 5)) \<longrightarrow> fst (loginFn cl) = None) \<and>
         (\<exists>r. res = Do r \<and> filter (\<lambda>ev. ev \<noteq> LoginCall) evs = [DoCall r] \<and>
              Method r = Method req \<and> ReqBody r = ReqBody req))"
    by (rule doRequest_outcome)
next
  assume run: "request reject loginFn Do now cl meth urlStr body = (resq, clq, evsq)"
  show "(\<exists>err. reject (if meth = [] then ''GET'' else meth) (URL (cfg cl) @ urlStr) = Some err \<and>
         resq = (None, Some err) \<and> evsq = []) \<or>
      (reject (if meth = [] then ''GET'' else meth) (URL (cfg cl) @ urlStr) = None \<and>
       Before (tokenExpires cl) (Add now (Minute * 5)) \<and>
         (\<exists>e. fst (loginFn cl) = Some e \<and> resq = (None, Some e)) \<and> evsq = [LoginCall]) \<or>
      (reject (if meth = [] then ''GET'' else meth) (URL (cfg cl) @ urlStr) = None \<and>
       (Before (tokenExpires cl) (Add now (Minute * 5)) \<longrightarrow> fst (loginFn cl) = None) \<and>
         (\<exists>r. resq = Do r \<and> filter (\<lambda>ev. ev \<noteq> LoginCall) evsq = [DoCall r] \<and>
              Method r = (if meth = [] then ''GET'' else meth) \<and> ReqBody r = body))"
  proof (cases "reject (if meth = [] then ''GET'' else meth) (URL (cfg cl) @ urlStr)")
    case (Some err)
    with run show ?thesis by (simp add: request_rejected)
  next
    case None
    with run have "doRequest loginFn Do now cl
       \<lparr>Method = (if meth = [] then ''GET'' else meth), RawURL = URL (cfg cl) @ urlStr,
        Hdr = Map.empty, ReqBody = body\<rparr> = (resq, clq, evsq)"
      by (simp add: request_accepted)
    from doRequest_outcome [OF this] None show ?thesis by simp
  qed
qed

theorem dispatch_returns_raw_result_witness:
  "doRequest refusedLogin okDo sampleNow sessionClient sampleRequest =
     (okDo sentRequest, sessionClient, [DoCall sentRequest]) \<and>
   request acceptAll refusedLogin okDo sampleNow sessionClient
       ''GET'' ''/iocm/app/dm/v1.1.0/devices/d1'' None =
     (okDo sentRequest, sessionClient, [DoCall sentRequest]) \<and>
   acceptAll ''GET'' (URL (cfg sessionClient) @ ''/iocm/app/dm/v1.1.0/devices/d1'') = None \<and>
   \<not> Before (tokenExpires sessionClient) (Add sampleNow (Minute * 5)) \<and>
   filter (\<lambda>ev. ev \<noteq> LoginCall) [DoCall sentRequest] = [DoCall sentRequest] \<and>
   Method sentRequest = ''GET'' \<and> ReqBody sentRequest = None"
  using dispatch_returns_raw_result
      [where loginFn = refusedLogin and Do = okDo and now = sampleNow and cl = sessionClient
         and req = sampleRequest and res = "okDo sentRequest" and cl' = sessionClient
         and evs = "[DoCall sentRequest]" and reject = acceptAll
         and meth = "''GET''" and urlStr = "''/iocm/app/dm/v1.1.0/devices/d1''" and body = None
         and resq = "okDo sentRequest" and clq = sessionClient
         and evsq = "[DoCall sentRequest]"]
    doRequest_sessionClient request_sessionClient sessionClient_fresh
  by (simp add: acceptAll_def sentRequest_def sampleRequest_def)

section \<open>Properties of the session\<close>

lemma Login_error: "Login reply cl = (Some e, cl1) \<Longrightarrow> reply = Inl e \<and> cl1 = cl"
  by (auto simp: Login_def split: sum.splits prod.splits)

lemma Login_success:
  "Login reply cl = (None, cl1) \<Longrightarrow>
   \<exists>tok expires. reply = Inr (tok, expires) \<and> cl1 = cl\<lparr>token := tok, tokenExpires := expires\<rparr>"
  by (auto simp: Login_def split: sum.splits prod.splits)

text \<open>
  C2. When the \<open>Login\<close> that a call of \<open>doRequest\<close> triggers fails, \<open>doRequest\<close> returns
  that error and the client is afterwards exactly the client before the call: its token
  and its expiry are unchanged.
\<close>

theorem failed_login_keeps_session:
  assumes "Before (tokenExpires cl) (Add now (Minute * 5))"
    and "Login reply cl = (Some e, cl1)"
  shows "doRequest (Login reply) Do now cl req = ((None, Some e), cl, [LoginCall]) \<and>
         token (fst (snd (doRequest (Login reply) Do now cl req))) = token cl \<and>
         tokenExpires (fst (snd (doRequest (Login reply) Do now cl req))) = tokenExpires cl"
proof -
  from assms(2) have "cl1 = cl" using Login_error by blast
  with assms show ?thesis by (simp add: doRequest_login_failed)
qed

theorem failed_login_keeps_session_witness:
  "Before (tokenExpires freshClient) (Add sampleNow (Minute * 5)) \<and>
   Login (Inl (Error ''401 Unauthorized'')) freshClient =
     (Some (Error ''401 Unauthorized''), freshClient) \<and>
   doRequest (Login (Inl (Error ''401 Unauthorized''))) okDo sampleNow freshClient sampleRequest =
     ((None, Some (Error ''401 Unauthorized'')), freshClient, [LoginCall])"
proof -
  have failed: "Login (Inl (Error ''401 Unauthorized'')) freshClient =
      (Some (Error ''401 Unauthorized''), freshClient)"
    by (simp add: Login_def)
  from failed_login_keeps_session [where Do = okDo and req = sampleRequest,
         OF freshClient_stale failed]
       freshClient_stale failed
  show ?thesis by simp
qed

subsection \<open>When a call logs in\<close>

lemma dispatchAll_entry:
  "(cl0, (reply, Do, now, req), out) \<in> set (dispatchAll calls cl) \<Longrightarrow>
   out = doRequest (Login reply) Do now cl0 req"
proof (induction calls arbitrary: cl)
  case Nil
  then show ?case by simp
next
  case (Cons call calls)
  obtain reply' Do' now' req' where call: "call = (reply', Do', now', req')"
    by (cases call) auto
  from Cons.prems show ?case
    unfolding call by (auto simp: Let_def dest: Cons.IH)
qed

lemma doRequest_LoginCall_iff:
  assumes "doRequest loginFn Do now cl req = (res, cl', evs)"
  shows "LoginCall \<in> set evs \<longleftrightarrow> Before (tokenExpires cl) (Add now (Minute * 5))"
proof (cases rule: doRequest_cases [where cl = cl and now = now and loginFn = loginFn])
  case fresh
  with assms show ?thesis by (auto simp: doRequest_fresh Let_def)
next
  case (login_ok cl1)
  with assms show ?thesis by (auto simp: doRequest_login_ok Let_def)
next
  case (login_failed e cl1)
  with assms show ?thesis by (auto simp: doRequest_login_failed)
qed

lemma doRequest_no_login:
  assumes "doRequest loginFn Do now cl req = (res, cl', evs)" and "LoginCall \<notin> set evs"
  shows "cl' = cl"
proof -
  from assms have "\<not> Before (tokenExpires cl) (Add now (Minute * 5))"
    using doRequest_LoginCall_iff by blast
  with assms(1) show ?thesis by (auto simp: doRequest_fresh Let_def)
qed

lemma doRequest_Login_sent:
  assumes "doRequest (Login reply) Do now cl req = (res, cl', evs)"
    and "LoginCall \<in> set evs" and "DoCall r \<in> set evs"
  shows "reply = Inr (token cl', tokenExpires cl')"
proof -
  from assms(1,2) have stale: "Before (tokenExpires cl) (Add now (Minute * 5))"
    using doRequest_LoginCall_iff by blast
  show ?thesis
  proof (cases "Login reply cl")
    case (Pair err cl1)
    show ?thesis
    proof (cases err)
      case None
      with Pair obtain tok expires where "reply = Inr (tok, expires)"
        and "cl1 = cl\<lparr>token := tok, tokenExpires := expires\<rparr>"
        using Login_success by blast
      moreover from assms(1) Pair None have "cl' = cl1"
        by (simp add: doRequest_login_ok [OF stale] Let_def)
      ultimately show ?thesis by simp
    next
      case (Some e)
      with assms(1,3) Pair show ?thesis
        by (auto simp: doRequest_login_failed [OF stale])
    qed
  qed
qed

lemma freshClient_AppID: "AppID (cfg freshClient) = ''app1''"
  by (simp add: freshClient_def sampleConfig_def)

lemma sampleRequest_sent:
  "AddHeader (AddHeader (AddHeader sampleRequest ''app_key'' ''app1'') ''Authorization'' ''T1'')
     ''Content-Type'' ''application/json'' = sentRequest"
  by (simp add: sentRequest_def sampleRequest_def AddHeader_def Header_Add_def Header_Values_def
        canonical_keys)

lemma dispatchAll_scenarioA:
  "dispatchAll scenarioA freshClient =
     [(freshClient, (Inr (''T1'', Add sampleNow (3600 * Second)), okDo, sampleNow, sampleRequest),
         (okDo sentRequest, sessionClient, [LoginCall, DoCall sentRequest])),
      (sessionClient,
         (Inl (Error ''unreachable''), okDo, Add sampleNow (10 * Second), sampleRequest),
         (okDo sentRequest, sessionClient, [DoCall sentRequest]))]"
proof -
  have login: "Login (Inr (''T1'', Add sampleNow (3600 * Second))) freshClient =
      (None, sessionClient)"
    by (simp add: Login_def sessionClient_def)
  have first: "doRequest (Login (Inr (''T1'', Add sampleNow (3600 * Second)))) okDo sampleNow
      freshClient sampleRequest = (okDo sentRequest, sessionClient, [LoginCall, DoCall sentRequest])"
    by (simp add: doRequest_login_ok
          [where loginFn = "Login (Inr (''T1'', Add sampleNow (3600 * Second)))",
           OF freshClient_stale login] Let_def sessionClient_fields sampleRequest_sent)
  have later:
    "\<not> Before (tokenExpires sessionClient) (Add (Add sampleNow (10 * Second)) (Minute * 5))"
    by (simp add: sessionClient_def Before_def Add_def Minute_def Second_def sampleNow_def)
  have second: "doRequest (Login (Inl (Error ''unreachable''))) okDo (Add sampleNow (10 * Second))
      sessionClient sampleRequest = (okDo sentRequest, sessionClient, [DoCall sentRequest])"
    by (simp add: doRequest_fresh [OF later] Let_def sessionClient_fields sampleRequest_sent)
  show ?thesis
    by (simp add: scenarioA_def first second Let_def)
qed

text \<open>
  C1, as the code has it. In every sequence of dispatch calls, a call performs a \<open>Login\<close>
  exactly when \<open>tokenExpires\<close> is before now plus five minutes. Every request it sends
  carries the token of the session under \<open>Authorization\<close>: when the call did not log in,
  the session is the one it found, and its recorded expiry is at least five minutes in
  the future; when the call logged in, the token and the expiry are the ones that the
  login has just stored, as the server granted them, and \<open>doRequest\<close> does not compare
  that expiry with the margin.
\<close>

theorem dispatch_login_iff_stale:
  assumes "(cl0, (reply, Do, now, req), (res, cl1, evs)) \<in> set (dispatchAll calls cl)"
  shows "(LoginCall \<in> set evs \<longleftrightarrow> Before (tokenExpires cl0) (Add now (Minute * 5))) \<and>
         (\<forall>r. DoCall r \<in> set evs \<longrightarrow>
            Header_Values (Hdr r) ''Authorization'' =
              Header_Values (Hdr req) ''Authorization'' @ [token cl1] \<and>
            (if LoginCall \<in> set evs
             then reply = Inr (token cl1, tokenExpires cl1)
             else cl1 = cl0 \<and> \<not> Before (tokenExpires cl1) (Add now (Minute * 5))))"
proof -
  from assms have run: "doRequest (Login reply) Do now cl0 req = (res, cl1, evs)"
    using dispatchAll_entry by fastforce
  have login: "LoginCall \<in> set evs \<longleftrightarrow> Before (tokenExpires cl0) (Add now (Minute * 5))"
    using run by (rule doRequest_LoginCall_iff)
  have sent: "Header_Values (Hdr r) ''Authorization'' =
                Header_Values (Hdr req) ''Authorization'' @ [token cl1] \<and>
              (if LoginCall \<in> set evs
               then reply = Inr (token cl1, tokenExpires cl1)
               else cl1 = cl0 \<and> \<not> Before (tokenExpires cl1) (Add now (Minute * 5)))"
    if r: "DoCall r \<in> set evs" for r
  proof -
    have "r = AddHeader (AddHeader (AddHeader req ''app_key'' (AppID (cfg cl1)))
                ''Authorization'' (token cl1)) ''Content-Type'' ''application/json''"
      using run r by (rule doRequest_sent(1))
    then have hdr: "Header_Values (Hdr r) ''Authorization'' =
        Header_Values (Hdr req) ''Authorization'' @ [token cl1]"
      using sent_headers(2) [of req cl1] by simp
    show ?thesis
    proof (cases "LoginCall \<in> set evs")
      case True
      with run r hdr show ?thesis using doRequest_Login_sent by simp
    next
      case False
      with run have "cl1 = cl0" by (rule doRequest_no_login)
      with False login hdr show ?thesis by simp
    qed
  qed
  from login sent show ?thesis by blast
qed

theorem dispatch_login_iff_stale_witness:
  "(sessionClient,
      (Inl (Error ''unreachable''), okDo, Add sampleNow (10 * Second), sampleRequest),
      (okDo sentRequest, sessionClient, [DoCall sentRequest]))
     \<in> set (dispatchAll scenarioA freshClient) \<and>
   LoginCall \<notin> set [DoCall sentRequest] \<and>
   \<not> Before (tokenExpires sessionClient) (Add (Add sampleNow (10 * Second)) (Minute * 5)) \<and>
   DoCall sentRequest \<in> set [DoCall sentRequest] \<and>
   Header_Values (Hdr sentRequest) ''Authorization'' = [''T1'']"
proof -
  have entry: "(sessionClient,
      (Inl (Error ''unreachable''), okDo, Add sampleNow (10 * Second), sampleRequest),
      (okDo sentRequest, sessionClient, [DoCall sentRequest]))
     \<in> set (dispatchAll scenarioA freshClient)"
    by (simp add: dispatchAll_scenarioA)
  from dispatch_login_iff_stale [OF entry] entry show ?thesis
    by (simp add: sampleRequest_Hdr sessionClient_fields Header_Values_def)
qed

text \<open>
  C1 as it is stated fails. The new client logs in and the server grants the token \<open>T1\<close>
  for 200 seconds; \<open>doRequest\<close> sends the request with \<open>Authorization: T1\<close> although the
  recorded expiry of the session is then less than five minutes ahead of the clock.
\<close>

theorem login_grant_inside_margin_counterexample:
  "doRequest (Login (Inr (''T1'', Add sampleNow (200 * Second)))) okDo sampleNow
       freshClient sampleRequest =
     (okDo sentRequest,
      freshClient\<lparr>token := ''T1'', tokenExpires := Add sampleNow (200 * Second)\<rparr>,
      [LoginCall, DoCall sentRequest]) \<and>
   Header_Values (Hdr sentRequest) ''Authorization'' = [''T1''] \<and>
   Before (tokenExpires (freshClient\<lparr>token := ''T1'', tokenExpires := Add sampleNow (200 * Second)\<rparr>))
     (Add sampleNow (Minute * 5))"
proof -
  have login: "Login (Inr (''T1'', Add sampleNow (200 * Second))) freshClient =
      (None, freshClient\<lparr>token := ''T1'', tokenExpires := Add sampleNow (200 * Second)\<rparr>)"
    by (simp add: Login_def)
  have "doRequest (Login (Inr (''T1'', Add sampleNow (200 * Second)))) okDo sampleNow
       freshClient sampleRequest =
     (okDo sentRequest,
      freshClient\<lparr>token := ''T1'', tokenExpires := Add sampleNow (200 * Second)\<rparr>,
      [LoginCall, DoCall sentRequest])"
    by (simp add: doRequest_login_ok
          [where loginFn = "Login (Inr (''T1'', Add sampleNow (200 * Second)))",
           OF freshClient_stale login] Let_def freshClient_AppID sampleRequest_sent)
  moreover have "Header_Values (Hdr sentRequest) ''Authorization'' = [''T1'']"
    by (simp add: sentRequest_def Header_Values_def canonical_keys)
  moreover have
    "Before (tokenExpires (freshClient\<lparr>token := ''T1'', tokenExpires := Add sampleNow (200 * Second)\<rparr>))
       (Add sampleNow (Minute * 5))"
    by (simp add: Before_def Add_def Minute_def Second_def)
  ultimately show ?thesis by blast
qed

section \<open>Properties of the construction\<close>

lemma NewClient_sample: "NewClient sampleLoad noNames sampleConfig = (Some freshClient, None)"
  by (simp add: NewClient_def sampleLoad_def noNames_def sampleConfig_def freshClient_def
      BuildNameToCertificate_def)

text \<open>
  C7. When loading the certificate and key files fails (a file is unreadable or malformed),
  \<open>NewClient\<close> returns that error and no client.
\<close>

theorem NewClient_certificate_error:
  assumes "snd (LoadX509KeyPair (CertFile conf) (CertKeyFile conf)) = Some e"
  shows "NewClient LoadX509KeyPair names conf = (None, Some e)"
  using assms by (auto simp: NewClient_def split: prod.splits)

theorem NewClient_certificate_error_witness:
  "snd (failingLoad (CertFile sampleConfig) (CertKeyFile sampleConfig)) =
     Some (Error ''no such file'') \<and>
   NewClient failingLoad noNames sampleConfig = (None, Some (Error ''no such file''))"
proof -
  have unreadable: "snd (failingLoad (CertFile sampleConfig) (CertKeyFile sampleConfig)) =
      Some (Error ''no such file'')"
    by (simp add: failingLoad_def)
  from NewClient_certificate_error
         [where LoadX509KeyPair = failingLoad and names = noNames, OF unreadable] unreadable
  show ?thesis by simp
qed

text \<open>
  C9. Every client that \<open>NewClient\<close> returns has \<open>InsecureSkipVerify\<close> set in the TLS
  configuration of its transport.
\<close>

theorem NewClient_skips_verification:
  assumes "NewClient LoadX509KeyPair names conf = (Some cl, err)"
  shows "InsecureSkipVerify (TLSClientConfig (Transport (httpc cl))) = True"
  using assms
  by (auto simp: NewClient_def BuildNameToCertificate_def Let_def split: prod.splits option.splits)

theorem NewClient_skips_verification_witness:
  "NewClient sampleLoad noNames sampleConfig = (Some freshClient, None) \<and>
   InsecureSkipVerify (TLSClientConfig (Transport (httpc freshClient))) = True"
  using NewClient_skips_verification [OF NewClient_sample] NewClient_sample by simp

section \<open>Properties of the operation handlers\<close>

subsection \<open>The query string of GetDevices\<close>

lemma Itoa_0: "Itoa 0 = ''0''"
  by code_simp

lemma getQueryStringForDeviceGet_last:
  "last (getQueryStringForDeviceGet dev) = CHR ''&'' \<longleftrightarrow>
     Sort dev = [] \<or> last (Sort dev) = CHR ''&''"
  by (simp add: getQueryStringForDeviceGet_def Let_def)

text \<open>
  C8. The query string is to end without a separator. On the zero value of
  \<open>GetDevicesStruct\<close> (no filter, page 0) the function returns a string that ends in
  \<open>&\<close>: only the last parameter, \<open>sort\<close>, is written without a trailing \<open>&\<close>, and it is
  absent here.
\<close>

theorem getQueryStringForDeviceGet_trailing_separator:
  "getQueryStringForDeviceGet zeroDevices = ''/iocm/app/dm/v1.1.0/devices?pageNo=0&''"
  by (simp add: getQueryStringForDeviceGet_def zeroDevices_def Itoa_0)

subsection \<open>The body of RegisterDevice\<close>

lemma first_timeout:
  "(if length timeoutV > 0 then timeoutV ! 0 else (0::go_uint)) =
     (case timeoutV of [] \<Rightarrow> 0 | t # ts \<Rightarrow> t)"
  by (cases timeoutV) simp_all

lemma digits_0: "digits 0 = ''0''"
  by code_simp

lemma digits_5: "digits 5 = ''5''"
  by code_simp

lemma jsonString_verifyCode: "jsonString ''verifyCode'' = quoted ''verifyCode''"
  by code_simp

lemma jsonString_nodeId: "jsonString ''nodeId'' = quoted ''nodeId''"
  by code_simp

lemma jsonString_timeout: "jsonString ''timeout'' = quoted ''timeout''"
  by code_simp

lemma jsonString_endUserId: "jsonString ''endUserId'' = quoted ''endUserId''"
  by code_simp

lemma jsonString_867: "jsonString ''867'' = quoted ''867''"
  by code_simp

lemma jsonString_user1: "jsonString ''user1'' = quoted ''user1''"
  by code_simp

lemmas jsonString_samples = jsonString_verifyCode jsonString_nodeId jsonString_timeout
  jsonString_endUserId jsonString_867 jsonString_user1

lemma jsonMarshal_sample:
  "jsonMarshal \<lparr>regDevice.VerifyCode = ''867'', NodeID = ''867'', regDevice.Timeout = 0,
       regDevice.EndUserID = ''user1''\<rparr> = Inr (registerBody ''0'')"
  "jsonMarshal \<lparr>regDevice.VerifyCode = ''867'', NodeID = ''867'', regDevice.Timeout = 5,
       regDevice.EndUserID = ''user1''\<rparr> = Inr (registerBody ''5'')"
  by (simp_all add: jsonMarshal_def registerBody_def jsonString_samples digits_0 digits_5)

lemma sessionClient_EndUserID: "Config.EndUserID (cfg sessionClient) = ''user1''"
  by (simp add: sessionClient_def freshClient_def sampleConfig_def)

lemma request_register:
  "request acceptAll refusedLogin okDo sampleNow sessionClient ''POST''
      ''/iocm/app/reg/v1.2.0/devices?appId=app1'' (Some (registerBody t)) =
      (okDo (registerRequest t), sessionClient, [DoCall (registerRequest t)])"
  by (simp add: request_def NewRequest_def acceptAll_def
        doRequest_fresh [OF sessionClient_fresh] Let_def)
     (simp add: sessionClient_def freshClient_def sampleConfig_def registerRequest_def
        AddHeader_def Header_Add_def Header_Values_def canonical_keys okDo_def)

lemma RegisterDevice_sample:
  "RegisterDevice jsonMarshal (Inr emptyReply) acceptAll refusedLogin okDo sampleNow
       sessionClient ''867'' [] =
     (Some (Some emptyReply, None), sessionClient, [DoCall (registerRequest ''0'')])"
  "RegisterDevice jsonMarshal (Inr emptyReply) acceptAll refusedLogin okDo sampleNow
       sessionClient ''867'' [5] =
     (Some (Some emptyReply, None), sessionClient, [DoCall (registerRequest ''5'')])"
  by (simp_all add: RegisterDevice_def sessionClient_EndUserID sessionClient_fields
        jsonMarshal_sample request_register okDo_def)

text \<open>
  C10. Every call of \<open>RegisterDevice\<close> encodes a \<open>regDevice\<close> whose \<open>verifyCode\<close> and
  \<open>nodeId\<close> are both the IMEI it was given, whose \<open>endUserId\<close> is the one of the client
  configuration, and whose \<open>timeout\<close> is the first timeout argument, or 0 when the call has
  no timeout argument. Unless the encoding, \<open>http.NewRequest\<close> or the login fails (then the
  call returns that error and sends nothing), it sends exactly one request, a \<open>POST\<close>
  whose body is that encoding.
\<close>

theorem RegisterDevice_body:
  assumes "RegisterDevice Marshal decoded reject loginFn Do now cl imei timeoutV = (res, cl', evs)"
  shows "let b = \<lparr>regDevice.VerifyCode = imei, NodeID = imei,
                   regDevice.Timeout = (case timeoutV of [] \<Rightarrow> 0 | t # ts \<Rightarrow> t),
                   regDevice.EndUserID = Config.EndUserID (cfg cl)\<rparr>;
             url = URL (cfg cl) @ ''/iocm/app/reg/v1.2.0/devices?appId='' @ AppID (cfg cl);
             stale = Before (tokenExpires cl) (Add now (Minute * 5))
         in (timeoutV = [] \<longrightarrow> regDevice.Timeout b = 0) \<and>
            ((\<exists>err. Marshal b = Inl err \<and> res = Some (None, Some err) \<and> evs = []) \<or>
             (\<exists>body. Marshal b = Inr body \<and>
                ((\<exists>err. reject ''POST'' url = Some err \<and> res = Some (None, Some err) \<and> evs = []) \<or>
                 (reject ''POST'' url = None \<and> stale \<and>
                    (\<exists>e. fst (loginFn cl) = Some e \<and> res = Some (None, Some e)) \<and>
                    evs = [LoginCall]) \<or>
                 (reject ''POST'' url = None \<and> (stale \<longrightarrow> fst (loginFn cl) = None) \<and>
                    (\<exists>r. filter (\<lambda>ev. ev \<noteq> LoginCall) evs = [DoCall r] \<and>
                         Method r = ''POST'' \<and> ReqBody r = Some body)))))"
proof -
  define b where "b = \<lparr>regDevice.VerifyCode = imei, NodeID = imei,
                   regDevice.Timeout = (case timeoutV of [] \<Rightarrow> 0 | t # ts \<Rightarrow> t),
                   regDevice.EndUserID = Config.EndUserID (cfg cl)\<rparr>"
  define path where "path = ''/iocm/app/reg/v1.2.0/devices?appId='' @ AppID (cfg cl)"
  have zero: "timeoutV = [] \<longrightarrow> regDevice.Timeout b = 0"
    by (simp add: b_def)
  have run: "(case Marshal b of
           Inl err \<Rightarrow> (Some (None, Some err), cl, [])
         | Inr body \<Rightarrow>
             (let ((resp, err), cl1, evs1) = request reject loginFn Do now cl ''POST'' path (Some body)
              in case err of
                   Some e \<Rightarrow> (Some (None, Some e), cl1, evs1)
                 | None \<Rightarrow>
                     (case resp of
                        None \<Rightarrow> (None, cl1, evs1)
                      | Some r \<Rightarrow>
                          if StatusCode r \<noteq> 200
                          then (Some (None, Some (Error (''invalid response code: '' @ StatusLine r))),
                                cl1, evs1)
                          else (case decoded of
                                  Inl e \<Rightarrow> (Some (None, Some e), cl1, evs1)
                                | Inr d \<Rightarrow> (Some (Some d, None), cl1, evs1))))) = (res, cl', evs)"
    using assms unfolding RegisterDevice_def first_timeout b_def path_def by (simp add: Let_def)
  have outcome: "(\<exists>err. Marshal b = Inl err \<and> res = Some (None, Some err) \<and> evs = []) \<or>
             (\<exists>body. Marshal b = Inr body \<and>
                ((\<exists>err. reject ''POST'' (URL (cfg cl) @ path) = Some err \<and>
                     res = Some (None, Some err) \<and> evs = []) \<or>
                 (reject ''POST'' (URL (cfg cl) @ path) = None \<and>
                    Before (tokenExpires cl) (Add now (Minute * 5)) \<and>
                    (\<exists>e. fst (loginFn cl) = Some e \<and> res = Some (None, Some e)) \<and>
                    evs = [LoginCall]) \<or>
                 (reject ''POST'' (URL (cfg cl) @ path) = None \<and>
                    (Before (tokenExpires cl) (Add now (Minute * 5)) \<longrightarrow> fst (loginFn cl) = None) \<and>
                    (\<exists>r. filter (\<lambda>ev. ev \<noteq> LoginCall) evs = [DoCall r] \<and>
                         Method r = ''POST'' \<and> ReqBody r = Some body))))"
  proof (cases "Marshal b")
    case (Inl err)
    with run show ?thesis by auto
  next
    case (Inr body)
    obtain resp err cl1 evs1 where
      req: "request reject loginFn Do now cl ''POST'' path (Some body) = ((resp, err), cl1, evs1)"
      by (metis prod.exhaust)
    from run Inr req have evs: "evs1 = evs"
      by (auto simp: Let_def split: option.splits if_splits sum.splits)
    from run Inr req have res: "err \<noteq> None \<longrightarrow> res = Some (None, err)"
      by (auto simp: Let_def split: option.splits if_splits sum.splits)
    show ?thesis
    proof (cases "reject ''POST'' (URL (cfg cl) @ path)")
      case (Some e)
      with req have "err = Some e" and "evs1 = []"
        using request_rejected [where reject = reject and meth = "''POST''" and cl = cl
            and urlStr = path and err = e]
        by simp_all
      with Inr Some evs res show ?thesis by simp
    next
      case None
      with req have "doRequest loginFn Do now cl
         \<lparr>Method = ''POST'', RawURL = URL (cfg cl) @ path, Hdr = Map.empty, ReqBody = Some body\<rparr>
         = ((resp, err), cl1, evs1)"
        using request_accepted [where reject = reject and meth = "''POST''" and cl = cl
            and urlStr = path]
        by simp
      from doRequest_outcome [OF this] Inr None evs res show ?thesis
        by auto
    qed
  qed
  from zero outcome show ?thesis
    unfolding Let_def b_def path_def by blast
qed

theorem RegisterDevice_body_witness:
  "RegisterDevice jsonMarshal (Inr emptyReply) acceptAll refusedLogin okDo sampleNow
       sessionClient ''867'' [5] =
     (Some (Some emptyReply, None), sessionClient, [DoCall (registerRequest ''5'')]) \<and>
   jsonMarshal \<lparr>regDevice.VerifyCode = ''867'', NodeID = ''867'', regDevice.Timeout = 5,
       regDevice.EndUserID = ''user1''\<rparr> = Inr (registerBody ''5'') \<and>
   ReqBody (registerRequest ''5'') = Some (registerBody ''5'') \<and>
   RegisterDevice jsonMarshal (Inr emptyReply) acceptAll refusedLogin okDo sampleNow
       sessionClient ''867'' [] =
     (Some (Some emptyReply, None), sessionClient, [DoCall (registerRequest ''0'')]) \<and>
   jsonMarshal \<lparr>regDevice.VerifyCode = ''867'', NodeID = ''867'', regDevice.Timeout = 0,
       regDevice.EndUserID = ''user1''\<rparr> = Inr (registerBody ''0'') \<and>
   ReqBody (registerRequest ''0'') = Some (registerBody ''0'') \<and>
   Method (registerRequest ''0'') = ''POST'' \<and>
   \<not> Before (tokenExpires sessionClient) (Add sampleNow (Minute * 5))"
  using RegisterDevice_body [OF RegisterDevice_sample(2)]
    RegisterDevice_body [OF RegisterDevice_sample(1)]
    RegisterDevice_sample jsonMarshal_sample sessionClient_fresh
  by (simp add: registerRequest_def)

end
